theory Spec2Isabelle
  imports Complex_Main "HOL-Library.Multiset"
begin

section \<open>JavaScript numbers\<close>

text \<open>
  The Timer does arithmetic on JavaScript numbers and relies on \<open>NaN\<close>: its field
  \<open>fired_sys\<close> is \<open>NaN\<close> while the Timer is idle, and every comparison with \<open>NaN\<close> is
  false. A number is modelled as \<open>NaN\<close> or an exact real: the operators below propagate
  \<open>NaN\<close> as JavaScript does, and compute exactly on the other values. The two
  infinities and the sign of zero are outside the model; the rounding to 64-bit doubles
  comes with the settings of the Timer below.
\<close>

datatype jsnum = NaN | Num real

text \<open>\<open>a - b\<close> and \<open>a * b\<close>.\<close>

fun js_sub :: "jsnum \<Rightarrow> jsnum \<Rightarrow> jsnum" where
  "js_sub (Num a) (Num b) = Num (a - b)"
| "js_sub _ _ = NaN"

fun js_mul :: "jsnum \<Rightarrow> jsnum \<Rightarrow> jsnum" where
  "js_mul (Num a) (Num b) = Num (a * b)"
| "js_mul _ _ = NaN"

text \<open>\<open>a >= b\<close>, \<open>a > b\<close> and \<open>a < b\<close>: false as soon as one side is \<open>NaN\<close>.\<close>

fun js_ge :: "jsnum \<Rightarrow> jsnum \<Rightarrow> bool" where
  "js_ge (Num a) (Num b) = (b \<le> a)"
| "js_ge _ _ = False"

fun js_gt :: "jsnum \<Rightarrow> jsnum \<Rightarrow> bool" where
  "js_gt (Num a) (Num b) = (b < a)"
| "js_gt _ _ = False"

fun js_lt :: "jsnum \<Rightarrow> jsnum \<Rightarrow> bool" where
  "js_lt (Num a) (Num b) = (a < b)"
| "js_lt _ _ = False"

text \<open>
  \<open>a % b\<close>: the remainder of the division truncated towards zero, which has the sign of
  \<open>a\<close>; \<open>NaN\<close> when \<open>b\<close> is zero.
\<close>

definition js_trunc :: "real \<Rightarrow> int" where
  "js_trunc x = (if 0 \<le> x then \<lfloor>x\<rfloor> else \<lceil>x\<rceil>)"

fun js_rem :: "jsnum \<Rightarrow> jsnum \<Rightarrow> jsnum" where
  "js_rem (Num a) (Num b) = (if b = 0 then NaN else Num (a - b * of_int (js_trunc (a / b))))"
| "js_rem _ _ = NaN"

text \<open>\<open>Math.round(a)\<close>: the nearest integer, a tie rounded up.\<close>

fun js_round :: "jsnum \<Rightarrow> jsnum" where
  "js_round (Num a) = Num (of_int \<lfloor>a + 1 / 2\<rfloor>)"
| "js_round NaN = NaN"

section \<open>Timer\<close>

text \<open>
  The state of a Timer, with the part of the host (the browser) that the Timer acts on.
  The first seven fields are those of the JavaScript object, named without the final
  underscore (\<open>period\<close> is \<open>period_\<close>), \<open>undefined\<close> and \<open>null\<close> being \<open>None\<close>.
  A user callback is a value of type \<open>'f\<close>; calling it appends it to \<open>calls\<close>. The
  handler \<open>timerCallback\<close> of this section is the one of a callback that calls no
  method of its Timer, in exact arithmetic; the next section has the handler for any
  callback and any rounding. The host keeps the handler invocations that
  were requested and have neither run nor been cancelled in \<open>scheduled\<close>, each with
  the handle it returned, and hands out the handle \<open>fresh\<close> next.
\<close>

datatype request = SetTimeout jsnum | RequestAnimationFrame

record 'f Timer =
  legacy :: bool
  timeoutID :: "nat option"
  callBack :: "'f option"
  period :: jsnum
  firing :: bool
  fired_sys :: jsnum
  delta :: jsnum
  scheduled :: "(nat \<times> request) list"
  fresh :: nat
  calls :: "'f list"

text \<open>
  The constructor. \<open>raf\<close> tells whether \<open>requestAnimationFrame\<close> is a function of the
  host.
\<close>

definition new_Timer :: "bool \<Rightarrow> bool \<Rightarrow> 'f Timer" where
  "new_Timer opt_legacy raf =
     \<lparr> legacy = (opt_legacy \<or> \<not> raf), timeoutID = None, callBack = None,
       period = Num 0, firing = False, fired_sys = NaN, delta = Num 0,
       scheduled = [], fresh = 1, calls = [] \<rparr>"

text \<open>
  \<open>setTimeout\<close> and \<open>requestAnimationFrame\<close> queue one invocation of the handler and
  return its handle; \<open>clearTimeout\<close> and \<open>cancelAnimationFrame\<close> drop the invocation
  with the given handle, if it is still queued.
\<close>

definition host_schedule :: "request \<Rightarrow> 'f Timer \<Rightarrow> nat \<times> 'f Timer" where
  "host_schedule r s =
     (fresh s, s\<lparr>scheduled := scheduled s @ [(fresh s, r)], fresh := Suc (fresh s)\<rparr>)"

definition host_cancel :: "nat \<Rightarrow> 'f Timer \<Rightarrow> 'f Timer" where
  "host_cancel h s = s\<lparr>scheduled := filter (\<lambda>e. fst e \<noteq> h) (scheduled s)\<rparr>"

text \<open>
  The last statement of \<open>timerCallback\<close>: the handler asks the host for its next
  invocation and keeps the handle.
\<close>

definition reschedule :: "'f Timer \<Rightarrow> 'f Timer" where
  "reschedule s =
     (if legacy s then
        let delay_ms = (if js_gt (period s) (Num 0)
                        then js_round (js_mul (period s) (Num 1000)) else Num 17);
            (h, s') = host_schedule (SetTimeout delay_ms) s
        in s'\<lparr>timeoutID := Some h\<rparr>
      else
        let (h, s') = host_schedule RequestAnimationFrame s
        in s'\<lparr>timeoutID := Some h\<rparr>)"

text \<open>\<open>now - (this.fired_sys_ - this.delta_)\<close>\<close>

definition elapsed :: "real \<Rightarrow> 'f Timer \<Rightarrow> jsnum" where
  "elapsed now s = js_sub (Num now) (js_sub (fired_sys s) (delta s))"

text \<open>
  \<open>Timer.prototype.timerCallback\<close>, the handler that the host invokes. \<open>now\<close> is what
  \<open>Util.systemTime()\<close> returns in this run.
\<close>

definition timerCallback :: "real \<Rightarrow> 'f Timer \<Rightarrow> 'f Timer" where
  "timerCallback now s =
     (case callBack s of
        None \<Rightarrow> s
      | Some f \<Rightarrow>
          reschedule
            (if js_ge (elapsed now s) (period s) then
               s\<lparr>calls := calls s @ [f],
                 fired_sys := Num now,
                 delta := (if js_gt (period s) (Num 0)
                            then js_rem (elapsed now s) (period s) else Num 0)\<rparr>
             else s))"

definition getPeriod :: "'f Timer \<Rightarrow> jsnum" where
  "getPeriod s = period s"

definition isFiring :: "'f Timer \<Rightarrow> bool" where
  "isFiring s = firing s"

text \<open>\<open>Timer.prototype.stopFiring\<close>\<close>

definition stopFiring :: "'f Timer \<Rightarrow> 'f Timer" where
  "stopFiring s =
     (let s1 = s\<lparr>firing := False\<rparr>;
          s2 = (case timeoutID s1 of
                  Some h \<Rightarrow> (host_cancel h s1)\<lparr>timeoutID := None\<rparr>
                | None \<Rightarrow> s1)
      in s2\<lparr>fired_sys := NaN, delta := Num 0\<rparr>)"

text \<open>\<open>Timer.prototype.setCallBack\<close>\<close>

definition setCallBack :: "'f option \<Rightarrow> 'f Timer \<Rightarrow> 'f Timer" where
  "setCallBack cb s = (stopFiring s)\<lparr>callBack := cb\<rparr>"

text \<open>
  \<open>Timer.prototype.setPeriod\<close> throws or returns. Either way the Timer is left in some
  state, which the outcome holds.
\<close>

datatype error = Error

datatype 'a outcome = Returned 'a | Threw error 'a

fun state_of :: "'a outcome \<Rightarrow> 'a" where
  "state_of (Returned s) = s"
| "state_of (Threw e s) = s"

fun threw :: "'a outcome \<Rightarrow> bool" where
  "threw (Returned s) = False"
| "threw (Threw e s) = True"

definition setPeriod :: "jsnum \<Rightarrow> 'f Timer \<Rightarrow> 'f Timer outcome" where
  "setPeriod seconds s =
     (if js_lt seconds (Num 0) then Threw Error s else Returned (s\<lparr>period := seconds\<rparr>))"

text \<open>
  A Timer with period 1 and the callback 7, as \<open>startFiring\<close> leaves it when the clock
  reads 0: the callback has run once, and one invocation of the handler is queued.
\<close>

definition started :: "nat Timer" where
  "started =
     \<lparr> legacy = False, timeoutID = Some 1, callBack = Some 7, period = Num 1,
       firing = True, fired_sys = Num 0, delta = Num (1 / 10000000),
       scheduled = [(1, RequestAnimationFrame)], fresh = 2, calls = [7] \<rparr>"

section \<open>The Timer in its setting\<close>

text \<open>
  Two things are left out of \<open>timerCallback\<close> above. The callback is a JavaScript
  function: while it runs it can call the methods of the Timer that invoked it, and the
  handler goes on afterwards with the fields as the callback left them. And the numbers
  of the source are IEEE doubles, so that the result of every subtraction and
  multiplication is rounded. A setting gives both: \<open>rounding\<close> is applied to the exact
  result of an arithmetic operation and to the literal \<open>1E-7\<close>, and \<open>effect f s\<close> is the
  state in which the callback \<open>f\<close>, called in state \<open>s\<close>, leaves the Timer when it
  returns. The remainder \<open>%\<close> and the clock readings need no rounding: the remainder of
  two doubles is a double, and a clock reading is one.
\<close>

record 'f setting =
  rounding :: "real \<Rightarrow> real"
  effect :: "'f \<Rightarrow> 'f Timer \<Rightarrow> 'f Timer"

fun js_sub_in :: "'f setting \<Rightarrow> jsnum \<Rightarrow> jsnum \<Rightarrow> jsnum" where
  "js_sub_in w (Num a) (Num b) = Num (rounding w (a - b))"
| "js_sub_in w _ _ = NaN"

fun js_mul_in :: "'f setting \<Rightarrow> jsnum \<Rightarrow> jsnum \<Rightarrow> jsnum" where
  "js_mul_in w (Num a) (Num b) = Num (rounding w (a * b))"
| "js_mul_in w _ _ = NaN"

text \<open>The last statement of \<open>timerCallback\<close>, as \<open>reschedule\<close> above.\<close>

definition reschedule_in :: "'f setting \<Rightarrow> 'f Timer \<Rightarrow> 'f Timer" where
  "reschedule_in w s =
     (if legacy s then
        let delay_ms = (if js_gt (period s) (Num 0)
                        then js_round (js_mul_in w (period s) (Num 1000)) else Num 17);
            (h, s') = host_schedule (SetTimeout delay_ms) s
        in s'\<lparr>timeoutID := Some h\<rparr>
      else
        let (h, s') = host_schedule RequestAnimationFrame s
        in s'\<lparr>timeoutID := Some h\<rparr>)"

text \<open>\<open>now - (this.fired_sys_ - this.delta_)\<close>\<close>

definition elapsed_in :: "'f setting \<Rightarrow> real \<Rightarrow> 'f Timer \<Rightarrow> jsnum" where
  "elapsed_in w now s = js_sub_in w (Num now) (js_sub_in w (fired_sys s) (delta s))"

text \<open>
  \<open>Timer.prototype.timerCallback\<close>. The test uses \<open>period_\<close> as it is before the call
  of the callback; the assignments to \<open>fired_sys_\<close> and \<open>delta_\<close> and the request for
  the next tick come after the call and read \<open>period_\<close> again.
\<close>

definition timerCallback_in :: "'f setting \<Rightarrow> real \<Rightarrow> 'f Timer \<Rightarrow> 'f Timer" where
  "timerCallback_in w now s =
     (case callBack s of
        None \<Rightarrow> s
      | Some f \<Rightarrow>
          reschedule_in w
            (if js_ge (elapsed_in w now s) (period s) then
               let s1 = effect w f (s\<lparr>calls := calls s @ [f]\<rparr>)
               in s1\<lparr>fired_sys := Num now,
                     delta := (if js_gt (period s1) (Num 0)
                               then js_rem (elapsed_in w now s) (period s1) else Num 0)\<rparr>
             else s))"

text \<open>
  \<open>Timer.prototype.startFiring\<close>. It reads the clock (\<open>t0\<close>), and the handler that it
  calls reads the clock again (\<open>t1\<close>). \<open>arm_in\<close> is its three assignments, which come
  before the call of the handler.
\<close>

definition arm_in :: "'f setting \<Rightarrow> real \<Rightarrow> 'f Timer \<Rightarrow> 'f Timer" where
  "arm_in w t0 s =
     s\<lparr>firing := True,
       delta := Num 0,
       fired_sys :=
         js_sub_in w (js_sub_in w (Num t0) (period s)) (Num (rounding w (1 / 10 ^ 7)))\<rparr>"

definition startFiring_in :: "'f setting \<Rightarrow> real \<Rightarrow> real \<Rightarrow> 'f Timer \<Rightarrow> 'f Timer" where
  "startFiring_in w t0 t1 s =
     (if \<not> firing s then timerCallback_in w t1 (arm_in w t0 s) else s)"

subsection \<open>Runs of a Timer\<close>

text \<open>
  What can happen to a Timer from outside: a call of one of its public methods, the
  host running an invocation of the handler that is in its queue (\<open>HostTick\<close>, with the
  handle and the clock reading), and the handler made to run although the host has no
  such invocation queued (\<open>ForcedTick\<close>). What the callback does to the Timer while
  the handler runs is the \<open>effect\<close> of the setting. A \<open>setPeriod\<close> that throws leaves
  the state it throws in.
\<close>

datatype 'f action =
    SetPeriod jsnum
  | SetCallBack "'f option"
  | StartFiring real real
  | StopFiring
  | HostTick nat real
  | ForcedTick real

fun perform_in :: "'f setting \<Rightarrow> 'f action \<Rightarrow> 'f Timer \<Rightarrow> 'f Timer" where
  "perform_in w (SetPeriod seconds) s = state_of (setPeriod seconds s)"
| "perform_in w (SetCallBack cb) s = setCallBack cb s"
| "perform_in w (StartFiring t0 t1) s = startFiring_in w t0 t1 s"
| "perform_in w StopFiring s = stopFiring s"
| "perform_in w (HostTick h now) s =
     (if h \<in> fst ` set (scheduled s) then timerCallback_in w now (host_cancel h s) else s)"
| "perform_in w (ForcedTick now) s = timerCallback_in w now s"

fun run_in :: "'f setting \<Rightarrow> 'f action list \<Rightarrow> 'f Timer \<Rightarrow> 'f Timer" where
  "run_in w [] s = s"
| "run_in w (a # as) s = run_in w as (perform_in w a s)"

fun is_start :: "'f action \<Rightarrow> bool" where
  "is_start (StartFiring t0 t1) = True"
| "is_start _ = False"

subsection \<open>Settings\<close>

text \<open>
  Exact arithmetic with a callback that leaves the Timer alone, which gives
  \<open>timerCallback\<close> above, and exact arithmetic with a callback that calls
  \<open>stopFiring()\<close> on its Timer.
\<close>

definition exact :: "'f setting" where
  "exact = \<lparr> rounding = (\<lambda>x. x), effect = (\<lambda>f s. s) \<rparr>"

definition stopping :: "'f setting" where
  "stopping = \<lparr> rounding = (\<lambda>x. x), effect = (\<lambda>f s. stopFiring s) \<rparr>"


text \<open>
  IEEE 754 binary64 with rounding to nearest, ties to even, for results in the range of
  the normal numbers: \<open>binade x\<close> is the exponent of \<open>x\<close>, the doubles around \<open>x\<close> are
  the multiples of \<open>pow2 (binade x - 52)\<close>, and \<open>fl x\<close> is the nearest of them.
\<close>

definition pow2 :: "int \<Rightarrow> real" where
  "pow2 k = (if 0 \<le> k then 2 ^ nat k else 1 / 2 ^ nat (- k))"

definition binade :: "real \<Rightarrow> int" where
  "binade x = \<lfloor>log 2 \<bar>x\<bar>\<rfloor>"

definition nearest_even :: "real \<Rightarrow> int" where
  "nearest_even r =
     (if r - of_int \<lfloor>r\<rfloor> < 1 / 2 then \<lfloor>r\<rfloor>
      else if 1 / 2 < r - of_int \<lfloor>r\<rfloor> then \<lfloor>r\<rfloor> + 1
      else if even \<lfloor>r\<rfloor> then \<lfloor>r\<rfloor> else \<lfloor>r\<rfloor> + 1)"

definition fl :: "real \<Rightarrow> real" where
  "fl x =
     (if x = 0 then 0
      else pow2 (binade x - 52) * of_int (nearest_even (x / pow2 (binade x - 52))))"

text \<open>Doubles, with a callback that leaves the Timer alone.\<close>

definition ieee :: "'f setting" where
  "ieee = \<lparr> rounding = fl, effect = (\<lambda>f s. s) \<rparr>"

text \<open>
  A new Timer after \<open>setCallBack\<close> with the callback 7 and \<open>setPeriod(0.1)\<close>, where
  \<open>0.1\<close> is the double that the literal denotes.
\<close>

definition tenth :: "nat Timer" where
  "tenth =
     state_of (setPeriod (Num (fl (1 / 10))) (setCallBack (Some 7) (new_Timer False True)))"

subsection \<open>The bound on the drift\<close>






section \<open>DisplayLine\<close>

text \<open>
  A DisplayLine holds its Line, four style properties, each of which may be
  \<open>undefined\<close> (\<open>None\<close>), and the prototype it was made with, or \<open>null\<close> (\<open>None\<close>).
  The fields are named without the final underscore. The prototype is set by the
  constructor only, so the chain of prototypes is finite. A DisplayLine is taken here
  as a value: the prototype is the one the accessors would find when they are called.
\<close>

datatype 'line DisplayLine =
  DisplayLine (line: 'line) (color: "string option") (thickness: "jsnum option")
    (lineDash: "jsnum list option") (zIndex: "jsnum option") (proto: "'line DisplayLine option")

text \<open>
  The constructor; \<open>concreteLine\<close> is what \<open>new ConcreteLine('proto')\<close> makes.
\<close>

definition new_DisplayLine ::
  "'line \<Rightarrow> 'line option \<Rightarrow> 'line DisplayLine option \<Rightarrow> 'line DisplayLine" where
  "new_DisplayLine concreteLine li pr =
     DisplayLine (case li of Some l \<Rightarrow> l | None \<Rightarrow> concreteLine) None None None None pr"

text \<open>\<open>DisplayLine.prototype.getColor\<close>\<close>

fun getColor :: "'line DisplayLine \<Rightarrow> string" where
  "getColor (DisplayLine l (Some c) t ld z p) = c"
| "getColor (DisplayLine l None t ld z (Some p)) = getColor p"
| "getColor (DisplayLine l None t ld z None) = ''gray''"

text \<open>\<open>DisplayLine.prototype.getLineDash\<close>\<close>

fun getLineDash :: "'line DisplayLine \<Rightarrow> jsnum list" where
  "getLineDash (DisplayLine l c t (Some ld) z p) = ld"
| "getLineDash (DisplayLine l c t None z (Some p)) = getLineDash p"
| "getLineDash (DisplayLine l c t None z None) = []"

text \<open>\<open>DisplayLine.prototype.getThickness\<close>\<close>

fun getThickness :: "'line DisplayLine \<Rightarrow> jsnum" where
  "getThickness (DisplayLine l c (Some t) ld z p) = t"
| "getThickness (DisplayLine l c None ld z (Some p)) = getThickness p"
| "getThickness (DisplayLine l c None ld z None) = Num 4"

text \<open>\<open>DisplayLine.prototype.getZIndex\<close>\<close>

fun getZIndex :: "'line DisplayLine \<Rightarrow> jsnum" where
  "getZIndex (DisplayLine l c t ld (Some z) p) = z"
| "getZIndex (DisplayLine l c t ld None (Some p)) = getZIndex p"
| "getZIndex (DisplayLine l c t ld None None) = Num 0"

text \<open>The setters, which store their argument, \<open>undefined\<close> included.\<close>

fun setColor :: "string option \<Rightarrow> 'line DisplayLine \<Rightarrow> 'line DisplayLine" where
  "setColor c' (DisplayLine l c t ld z p) = DisplayLine l c' t ld z p"

fun setLineDash :: "jsnum list option \<Rightarrow> 'line DisplayLine \<Rightarrow> 'line DisplayLine" where
  "setLineDash ld' (DisplayLine l c t ld z p) = DisplayLine l c t ld' z p"

fun setThickness :: "jsnum option \<Rightarrow> 'line DisplayLine \<Rightarrow> 'line DisplayLine" where
  "setThickness t' (DisplayLine l c t ld z p) = DisplayLine l c t' ld z p"

fun setZIndex :: "jsnum option \<Rightarrow> 'line DisplayLine \<Rightarrow> 'line DisplayLine" where
  "setZIndex z' (DisplayLine l c t ld z p) = DisplayLine l c t ld z' p"

text \<open>A thin blue prototype.\<close>

definition blue_proto :: "nat DisplayLine" where
  "blue_proto =
     setThickness (Some (Num 1)) (setColor (Some ''blue'') (new_DisplayLine 0 None None))"

section \<open>PathObserver\<close>

text \<open>
  The classes that PathObserver works with are not among the sources. A NumericalPath
  is a value of type \<open>'np\<close>, a DoubleRect or ScreenRect one of type \<open>'rect\<close>, and an
  object that is compared by identity carries a number, taken from the counter
  \<open>next_id\<close> when the object is made, so that two objects made by one PathObserver
  never carry the same number.

  A DisplayPath is taken as the data that the calls made by PathObserver store in it:
  the constructor keeps the prototype, \<open>setScreenRect\<close> and \<open>setZIndex\<close> keep their
  argument, \<open>addPath\<close> appends a path to those it shows and \<open>removePath\<close> takes one
  away.
\<close>

datatype ('np, 'rect) DisplayPath =
  DisplayPath (dp_id: nat) (dp_paths: "'np list") (dp_screenRect: "'rect option")
    (dp_zIndex: "jsnum option") (dp_proto: "('np, 'rect) DisplayPath option")

definition new_DisplayPath ::
  "nat \<Rightarrow> ('np, 'rect) DisplayPath option \<Rightarrow> ('np, 'rect) DisplayPath" where
  "new_DisplayPath i pr = DisplayPath i [] None None pr"

fun dp_setScreenRect :: "'rect \<Rightarrow> ('np, 'rect) DisplayPath \<Rightarrow> ('np, 'rect) DisplayPath" where
  "dp_setScreenRect r (DisplayPath i ps sr z pr) = DisplayPath i ps (Some r) z pr"

fun dp_setZIndex :: "jsnum \<Rightarrow> ('np, 'rect) DisplayPath \<Rightarrow> ('np, 'rect) DisplayPath" where
  "dp_setZIndex z' (DisplayPath i ps sr z pr) = DisplayPath i ps sr (Some z') pr"

fun dp_addPath :: "'np \<Rightarrow> ('np, 'rect) DisplayPath \<Rightarrow> ('np, 'rect) DisplayPath" where
  "dp_addPath np (DisplayPath i ps sr z pr) = DisplayPath i (ps @ [np]) sr z pr"

fun dp_removePath :: "'np \<Rightarrow> ('np, 'rect) DisplayPath \<Rightarrow> ('np, 'rect) DisplayPath" where
  "dp_removePath np (DisplayPath i ps sr z pr) = DisplayPath i (remove1 np ps) sr z pr"

text \<open>
  The methods of DisplayList, NumericalPath and DoubleRect that \<open>addPath\<close> and
  \<open>removePath\<close> call are parameters of the model: \<open>dl_find\<close>, \<open>dl_add\<close> and
  \<open>dl_remove\<close> are \<open>find\<close>, \<open>add\<close> and \<open>remove\<close> of the DisplayList, whose content
  is a list of DisplayPaths; \<open>rect_unitAtCenter r\<close> is
  \<open>DoubleRect.makeCentered(r.getCenter(), 1, 1)\<close>.
\<close>

record ('np, 'rect) collaborators =
  dl_find :: "('np, 'rect) DisplayPath list \<Rightarrow> 'np \<Rightarrow> ('np, 'rect) DisplayPath option"
  dl_add ::
    "('np, 'rect) DisplayPath list \<Rightarrow> ('np, 'rect) DisplayPath \<Rightarrow> ('np, 'rect) DisplayPath list"
  dl_remove ::
    "('np, 'rect) DisplayPath list \<Rightarrow> ('np, 'rect) DisplayPath \<Rightarrow> ('np, 'rect) DisplayPath list"
  getBoundsWorld :: "'np \<Rightarrow> 'rect"
  rect_scale :: "'rect \<Rightarrow> jsnum \<Rightarrow> 'rect"
  rect_isEmpty :: "'rect \<Rightarrow> bool"
  rect_unitAtCenter :: "'rect \<Rightarrow> 'rect"
  rect_union :: "'rect \<Rightarrow> 'rect \<Rightarrow> 'rect"

text \<open>
  What is assumed of the DisplayList: \<open>find\<close> returns a display whenever one in the
  list shows the path, \<open>add\<close> adds the given display and nothing else, and \<open>remove\<close>
  adds nothing.
\<close>

definition collaborators_ok :: "('np, 'rect) collaborators \<Rightarrow> bool" where
  "collaborators_ok env =
     ((\<forall>dl np. (\<exists>d \<in> set dl. np \<in> set (dp_paths d)) \<longrightarrow> dl_find env dl np \<noteq> None) \<and>
      (\<forall>dl d. mset (dl_add env dl d) = add_mset d (mset dl)) \<and>
      (\<forall>dl d. mset (dl_remove env dl d) \<subseteq># mset dl))"

text \<open>
  A GenericObserver made by \<open>addPath\<close> is registered with the SimView until it is
  disconnected; it holds the DisplayPath that it resizes when the screen rectangle of
  the SimView changes. That handler is not one of the methods of PathObserver and is
  not modelled.
\<close>

record GenericObserver =
  obs_id :: nat
  obs_displayPath :: nat

text \<open>\<open>PathObserver.memObjects\<close>\<close>

record ('np, 'rect) memObjects =
  simObj :: 'np
  obs :: GenericObserver
  dispPath :: "('np, 'rect) DisplayPath"

text \<open>
  A PathObserver with what it acts on: the content of the DisplayList of its SimView
  (\<open>displayList_\<close>), the screen rectangle of the SimView and the observers registered
  with it, the identity of the SimList (\<open>simList_\<close>), whether \<open>simRectSetter_\<close> is a
  function and the rectangles it has been called with, \<open>expansionFactor_\<close>,
  \<open>memObjs_\<close> and \<open>protoDisplayPath\<close>.
\<close>

record ('np, 'rect) PathObserver =
  displayList :: "('np, 'rect) DisplayPath list"
  screenRect :: 'rect
  observers :: "GenericObserver list"
  simList :: nat
  simRectSetter :: bool
  simRects :: "'rect list"
  expansionFactor :: jsnum
  memObjs :: "('np, 'rect) memObjects list"
  protoDisplayPath :: "('np, 'rect) DisplayPath option"
  next_id :: nat

text \<open>
  The constructor, with \<open>opt_expand || 1.1\<close>: \<open>undefined\<close>, \<open>NaN\<close> and 0 give 1.1.
\<close>

fun js_falsy :: "jsnum option \<Rightarrow> bool" where
  "js_falsy None = True"
| "js_falsy (Some NaN) = True"
| "js_falsy (Some (Num x)) = (x = 0)"

definition new_PathObserver ::
  "nat \<Rightarrow> ('np, 'rect) DisplayPath list \<Rightarrow> 'rect \<Rightarrow> bool \<Rightarrow> jsnum option \<Rightarrow> nat
     \<Rightarrow> ('np, 'rect) PathObserver" where
  "new_PathObserver sl dl sr setter opt_expand i =
     \<lparr> displayList = dl, screenRect = sr, observers = [], simList = sl,
       simRectSetter = setter, simRects = [],
       expansionFactor = (if js_falsy opt_expand then Num (11 / 10) else the opt_expand),
       memObjs = [],
       protoDisplayPath = Some (dp_setZIndex (Num (- 10)) (new_DisplayPath i None)),
       next_id = Suc i \<rparr>"

text \<open>\<open>PathObserver.prototype.addPath\<close>\<close>

definition addPath ::
  "('np, 'rect) collaborators \<Rightarrow> 'np \<Rightarrow> ('np, 'rect) PathObserver
     \<Rightarrow> ('np, 'rect) PathObserver" where
  "addPath env np s =
     (if dl_find env (displayList s) np \<noteq> None then s
      else
        let displayPath =
              dp_addPath np (dp_setScreenRect (screenRect s)
                (new_DisplayPath (next_id s) (protoDisplayPath s)));
            s1 = s\<lparr>displayList := dl_add env (displayList s) displayPath,
                   next_id := Suc (next_id s)\<rparr>;
            s2 = (if simRectSetter s1 then
                    let r = rect_scale env (getBoundsWorld env np) (expansionFactor s1);
                        r' = (if rect_isEmpty env r
                              then rect_union env r (rect_unitAtCenter env r) else r)
                    in s1\<lparr>simRects := simRects s1 @ [r']\<rparr>
                  else s1);
            ob = \<lparr>obs_id = next_id s2, obs_displayPath = dp_id displayPath\<rparr>
        in s2\<lparr>observers := observers s2 @ [ob],
              next_id := Suc (next_id s2),
              memObjs := memObjs s2 @ [\<lparr>simObj = np, obs = ob, dispPath = displayPath\<rparr>]\<rparr>)"

text \<open>
  \<open>PathObserver.prototype.removePath\<close>. The DisplayPath of the entry is the object
  that \<open>addPath\<close> put in the DisplayList, so taking the path away from it shows in the
  list if the object is still there.
\<close>

definition removePath ::
  "('np, 'rect) collaborators \<Rightarrow> 'np \<Rightarrow> ('np, 'rect) PathObserver
     \<Rightarrow> ('np, 'rect) PathObserver" where
  "removePath env np s =
     (case List.find (\<lambda>element. simObj element = np) (memObjs s) of
        None \<Rightarrow> s
      | Some memObj \<Rightarrow>
          s\<lparr>displayList :=
              map (\<lambda>d. if dp_id d = dp_id (dispPath memObj) then dp_removePath np d else d)
                (dl_remove env (displayList s) (dispPath memObj)),
            observers := filter (\<lambda>ob. obs_id ob \<noteq> obs_id (obs memObj)) (observers s),
            memObjs := remove1 memObj (memObjs s)\<rparr>)"

text \<open>
  An event of a Subject: who sent it, its name and its value, which is a NumericalPath
  or some other SimObject. The two names are those of \<open>SimList\<close>.
\<close>

datatype 'np SimObject = NumericalPath 'np | OtherSimObject

record 'np event =
  getSubject :: nat
  getName :: string
  getValue :: "'np SimObject"

definition OBJECT_ADDED :: string where
  "OBJECT_ADDED = ''OBJECT_ADDED''"

definition OBJECT_REMOVED :: string where
  "OBJECT_REMOVED = ''OBJECT_REMOVED''"

text \<open>\<open>PathObserver.prototype.observe\<close>\<close>

definition observe ::
  "('np, 'rect) collaborators \<Rightarrow> 'np event \<Rightarrow> ('np, 'rect) PathObserver
     \<Rightarrow> ('np, 'rect) PathObserver" where
  "observe env ev s =
     (if getSubject ev = simList s then
        (case getValue ev of
           NumericalPath np \<Rightarrow>
             if getName ev = OBJECT_ADDED then addPath env np s
             else if getName ev = OBJECT_REMOVED then removePath env np s
             else s
         | OtherSimObject \<Rightarrow> s)
      else s)"

fun observe_all ::
  "('np, 'rect) collaborators \<Rightarrow> 'np event list \<Rightarrow> ('np, 'rect) PathObserver
     \<Rightarrow> ('np, 'rect) PathObserver" where
  "observe_all env [] s = s"
| "observe_all env (ev # evs) s = observe_all env evs (observe env ev s)"

text \<open>The DisplayPaths in the DisplayList that show a path.\<close>

definition displays_of :: "'np \<Rightarrow> ('np, 'rect) PathObserver \<Rightarrow> ('np, 'rect) DisplayPath list" where
  "displays_of np s = filter (\<lambda>d. np \<in> set (dp_paths d)) (displayList s)"

text \<open>
  An instance to compute with: paths and rectangles are numbers, the DisplayList
  searches from the front, adds at the end and removes the first occurrence.
\<close>

definition list_collaborators :: "(nat, nat) collaborators" where
  "list_collaborators =
     \<lparr> dl_find = (\<lambda>dl np. List.find (\<lambda>d. np \<in> set (dp_paths d)) dl),
       dl_add = (\<lambda>dl d. dl @ [d]),
       dl_remove = (\<lambda>dl d. remove1 d dl),
       getBoundsWorld = (\<lambda>np. np),
       rect_scale = (\<lambda>r f. r),
       rect_isEmpty = (\<lambda>r. r = 0),
       rect_unitAtCenter = (\<lambda>r. 1),
       rect_union = max \<rparr>"

definition observer0 :: "(nat, nat) PathObserver" where
  "observer0 = new_PathObserver 0 [] 5 True None 100"

definition added :: "nat \<Rightarrow> nat event" where
  "added np = \<lparr>getSubject = 0, getName = OBJECT_ADDED, getValue = NumericalPath np\<rparr>"

definition removed :: "nat \<Rightarrow> nat event" where
  "removed np = \<lparr>getSubject = 0, getName = OBJECT_REMOVED, getValue = NumericalPath np\<rparr>"

section \<open>Properties of the Timer\<close>

text \<open>
  C3: for every state of the Timer, \<open>setPeriod(seconds)\<close> with \<open>seconds < 0\<close> throws
  and leaves the whole state as it was, so \<open>getPeriod()\<close> returns what it returned
  before; with \<open>seconds >= 0\<close> it does not throw, and \<open>getPeriod()\<close> returns
  \<open>seconds\<close> afterwards.
\<close>

theorem setPeriod_throws_or_sets:
  "(js_lt seconds (Num 0) \<longrightarrow>
      setPeriod seconds s = Threw Error s \<and>
      threw (setPeriod seconds s) \<and>
      getPeriod (state_of (setPeriod seconds s)) = getPeriod s) \<and>
   (js_ge seconds (Num 0) \<longrightarrow>
      setPeriod seconds s = Returned (s\<lparr>period := seconds\<rparr>) \<and>
      \<not> threw (setPeriod seconds s) \<and>
      getPeriod (state_of (setPeriod seconds s)) = seconds)"
  by (cases seconds) (simp_all add: setPeriod_def getPeriod_def)

theorem setPeriod_throws_or_sets_witness:
  "setPeriod (Num (- 1)) (new_Timer False True :: nat Timer) =
     Threw Error (new_Timer False True) \<and>
   getPeriod (state_of (setPeriod (Num (- 1)) (new_Timer False True :: nat Timer))) = Num 0 \<and>
   \<not> threw (setPeriod (Num 2) (new_Timer False True :: nat Timer)) \<and>
   getPeriod (state_of (setPeriod (Num 2) (new_Timer False True :: nat Timer))) = Num 2"
  using setPeriod_throws_or_sets [of "Num (- 1)" "new_Timer False True :: nat Timer"]
    setPeriod_throws_or_sets [of "Num 2" "new_Timer False True :: nat Timer"]
  by (simp add: new_Timer_def getPeriod_def)



subsection \<open>Stopping\<close>

lemma stopFiring_fields:
  "fired_sys (stopFiring s) = NaN \<and> calls (stopFiring s) = calls s \<and>
   \<not> firing (stopFiring s) \<and> timeoutID (stopFiring s) = None \<and> delta (stopFiring s) = Num 0 \<and>
   period (stopFiring s) = period s \<and> callBack (stopFiring s) = callBack s \<and>
   legacy (stopFiring s) = legacy s \<and> fresh (stopFiring s) = fresh s \<and>
   scheduled (stopFiring s) =
     (case timeoutID s of None \<Rightarrow> scheduled s
      | Some h \<Rightarrow> filter (\<lambda>e. fst e \<noteq> h) (scheduled s))"
  by (simp add: stopFiring_def host_cancel_def Let_def split: option.splits)

text \<open>
  C7: \<open>setCallBack(fn)\<close>, for \<open>fn\<close> a function or \<open>null\<close>, does all of \<open>stopFiring\<close>
  (the tick whose handle the Timer holds is cancelled, \<open>firing_\<close> is false, the handle
  is dropped, \<open>fired_sys_\<close> is \<open>NaN\<close> and \<open>delta_\<close> is 0) and then installs \<open>fn\<close>;
  after \<open>setCallBack(null)\<close>, \<open>isFiring()\<close> is false.
\<close>

theorem setCallBack_stops:
  "setCallBack cb s = (stopFiring s)\<lparr>callBack := cb\<rparr> \<and>
   callBack (setCallBack cb s) = cb \<and>
   \<not> firing (setCallBack cb s) \<and>
   timeoutID (setCallBack cb s) = None \<and>
   fired_sys (setCallBack cb s) = NaN \<and>
   delta (setCallBack cb s) = Num 0 \<and>
   scheduled (setCallBack cb s) =
     (case timeoutID s of None \<Rightarrow> scheduled s
      | Some h \<Rightarrow> filter (\<lambda>e. fst e \<noteq> h) (scheduled s)) \<and>
   period (setCallBack cb s) = period s \<and>
   calls (setCallBack cb s) = calls s \<and>
   \<not> isFiring (setCallBack None s)"
  using stopFiring_fields [of s] by (simp add: setCallBack_def isFiring_def)

theorem setCallBack_stops_witness:
  "isFiring started \<and> \<not> isFiring (setCallBack None started) \<and>
   scheduled (setCallBack None started) = [] \<and>
   setCallBack None started =
     \<lparr> legacy = False, timeoutID = None, callBack = None, period = Num 1,
       firing = False, fired_sys = NaN, delta = Num 0,
       scheduled = [], fresh = 2, calls = [7] \<rparr>"
  using setCallBack_stops [of None started]
  by (simp add: started_def isFiring_def stopFiring_def host_cancel_def Let_def)

section \<open>Properties of the Timer in its setting\<close>

subsection \<open>The handler in the simplest setting\<close>

lemma js_sub_in_exact: "js_sub_in exact a b = js_sub a b"
  by (cases a; cases b) (simp_all add: exact_def)

lemma js_mul_in_exact: "js_mul_in exact a b = js_mul a b"
  by (cases a; cases b) (simp_all add: exact_def)

lemma timerCallback_in_exact: "timerCallback_in exact now s = timerCallback now s"
proof -
  have e: "elapsed_in exact now s = elapsed now s"
    by (simp add: elapsed_in_def elapsed_def js_sub_in_exact)
  have r: "\<And>t. reschedule_in exact t = reschedule t"
    by (simp add: reschedule_in_def reschedule_def js_mul_in_exact)
  have c: "\<And>f t. effect exact f t = t" by (simp add: exact_def)
  show ?thesis
    by (simp add: timerCallback_in_def timerCallback_def e r c Let_def split: option.splits)
qed

subsection \<open>The bound on the drift\<close>



















lemmas run_defs = new_Timer_def setCallBack_def stopFiring_def setPeriod_def startFiring_in_def
  arm_in_def timerCallback_in_def elapsed_in_def reschedule_in_def host_schedule_def
  host_cancel_def js_trunc_def exact_def stopping_def Let_def




subsection \<open>A callback that stops its Timer\<close>

text \<open>
  C4: the source at the failing input. The callback 7 calls \<open>stopFiring()\<close> on its
  Timer; the period is 0, as the constructor leaves it. \<open>startFiring()\<close> calls the
  callback while the Timer fires; after the \<open>stopFiring()\<close> in it the handler sets
  \<open>fired_sys_\<close> and asks for the next tick, and each of the two ticks that the host
  then runs, with no \<open>startFiring\<close> in between, calls the callback again.
\<close>

theorem stopFiring_in_callback_calls_again:
  "firing (arm_in stopping 0 (setCallBack (Some 7) (new_Timer False True :: nat Timer))) \<and>
   calls (run_in stopping [SetCallBack (Some 7), StartFiring 0 0]
     (new_Timer False True :: nat Timer)) = [7] \<and>
   \<not> firing (run_in stopping [SetCallBack (Some 7), StartFiring 0 0]
     (new_Timer False True :: nat Timer)) \<and>
   fired_sys (run_in stopping [SetCallBack (Some 7), StartFiring 0 0]
     (new_Timer False True :: nat Timer)) = Num 0 \<and>
   calls (run_in stopping [SetCallBack (Some 7), StartFiring 0 0, HostTick 1 1]
     (new_Timer False True :: nat Timer)) = [7, 7] \<and>
   calls (run_in stopping [SetCallBack (Some 7), StartFiring 0 0, HostTick 1 1, HostTick 2 2]
     (new_Timer False True :: nat Timer)) = [7, 7, 7]"
  by (simp add: run_defs)

text \<open>
  The defect is in the handler, which does not look at \<open>firing_\<close> after the call of
  the callback. After a \<open>stopFiring()\<close> that is called from outside the callback,
  \<open>fired_sys_\<close> is \<open>NaN\<close> and stays so through every action but \<open>startFiring\<close>, and
  no run of the handler calls the callback, in any setting.
\<close>

lemma timerCallback_in_idle:
  assumes "fired_sys s = NaN"
  shows "fired_sys (timerCallback_in w now s) = NaN \<and>
         calls (timerCallback_in w now s) = calls s"
  using assms
  by (simp add: timerCallback_in_def elapsed_in_def reschedule_in_def host_schedule_def Let_def
      split: option.splits)

lemma perform_in_idle:
  assumes "fired_sys s = NaN" and "\<not> is_start a"
  shows "fired_sys (perform_in w a s) = NaN \<and> calls (perform_in w a s) = calls s"
proof (cases a)
  case (SetPeriod seconds)
  then show ?thesis using assms(1) by (simp add: setPeriod_def)
next
  case (SetCallBack cb)
  then show ?thesis using stopFiring_fields [of s] by (simp add: setCallBack_def)
next
  case (StartFiring t0 t1)
  then show ?thesis using assms(2) by simp
next
  case StopFiring
  then show ?thesis using stopFiring_fields [of s] by simp
next
  case (HostTick h now)
  have "fired_sys (host_cancel h s) = NaN" using assms(1) by (simp add: host_cancel_def)
  then show ?thesis using HostTick assms(1) timerCallback_in_idle [of "host_cancel h s" w now]
    by (simp add: host_cancel_def)
next
  case (ForcedTick now)
  then show ?thesis using assms(1) timerCallback_in_idle [of s w now] by simp
qed

lemma stopFiring_outside_silences:
  assumes "\<forall>a \<in> set as. \<not> is_start a"
  shows "calls (run_in w as (stopFiring s)) = calls s"
proof -
  have "fired_sys t = NaN \<Longrightarrow> \<forall>a \<in> set as. \<not> is_start a \<Longrightarrow>
        fired_sys (run_in w as t) = NaN \<and> calls (run_in w as t) = calls t" for t
  proof (induction as arbitrary: t)
    case Nil
    then show ?case by simp
  next
    case (Cons a as)
    have step: "fired_sys (perform_in w a t) = NaN \<and> calls (perform_in w a t) = calls t"
      using Cons.prems by (simp add: perform_in_idle)
    then have "fired_sys (run_in w as (perform_in w a t)) = NaN \<and>
               calls (run_in w as (perform_in w a t)) = calls (perform_in w a t)"
      using Cons.IH [of "perform_in w a t"] Cons.prems(2) by simp
    then show ?case using step by simp
  qed
  then show ?thesis using assms stopFiring_fields [of s] by simp
qed

text \<open>
  C8: the source at the failing input. After \<open>setCallBack(g)\<close> and \<open>startFiring()\<close>
  on a new Timer, where \<open>g\<close> calls \<open>stopFiring()\<close> on its Timer, the Timer does not
  fire, holds the handle 1, the host has that tick queued, and \<open>stopFiring()\<close> changes
  the state.
\<close>

theorem stopFiring_in_callback_leaves_tick:
  "run_in stopping [SetCallBack (Some 7), StartFiring 0 0] (new_Timer False True :: nat Timer) =
     \<lparr> legacy = False, timeoutID = Some 1, callBack = Some 7, period = Num 0,
       firing = False, fired_sys = Num 0, delta = Num 0,
       scheduled = [(1, RequestAnimationFrame)], fresh = 2, calls = [7] \<rparr> \<and>
   stopFiring (run_in stopping [SetCallBack (Some 7), StartFiring 0 0]
     (new_Timer False True :: nat Timer)) =
     \<lparr> legacy = False, timeoutID = None, callBack = Some 7, period = Num 0,
       firing = False, fired_sys = NaN, delta = Num 0,
       scheduled = [], fresh = 2, calls = [7] \<rparr>"
  by (simp add: run_defs)

subsection \<open>Starting twice\<close>







subsection \<open>Starting at a clock that reads seconds since 1970\<close>

lemma pow2_powr: "pow2 k = 2 powr (of_int k)"
proof (cases "0 \<le> k")
  case True
  then have "(2::real) powr (of_int k) = 2 powr (real (nat k))" by simp
  also have "\<dots> = 2 ^ nat k" by (rule powr_realpow) simp
  finally show ?thesis using True by (simp add: pow2_def)
next
  case False
  then have "(2::real) powr (of_int k) = 2 powr (- real (nat (- k)))" by simp
  also have "\<dots> = 1 / 2 powr (real (nat (- k)))" by (rule powr_minus_divide)
  also have "\<dots> = 1 / 2 ^ nat (- k)" by (simp add: powr_realpow)
  finally show ?thesis using False by (simp add: pow2_def)
qed

lemma binade_eq:
  assumes "pow2 k \<le> \<bar>x\<bar>" and "\<bar>x\<bar> < pow2 (k + 1)"
  shows "binade x = k"
proof -
  have pos: "0 < \<bar>x\<bar>"
  proof -
    have "0 < pow2 k" by (simp add: pow2_powr)
    then show ?thesis using assms(1) by linarith
  qed
  have lo: "of_int k \<le> log 2 \<bar>x\<bar>"
    using assms(1) pos by (simp add: le_log_iff pow2_powr)
  have hi: "log 2 \<bar>x\<bar> < of_int k + 1"
    using assms(2) pos by (simp add: log_less_iff pow2_powr)
  show ?thesis unfolding binade_def using lo hi by (rule floor_unique)
qed

lemma fl_in_binade:
  assumes "pow2 k \<le> \<bar>x\<bar>" and "\<bar>x\<bar> < pow2 (k + 1)"
  shows "fl x = pow2 (k - 52) * of_int (nearest_even (x / pow2 (k - 52)))"
proof -
  have "0 < pow2 k" by (simp add: pow2_powr)
  then have "x \<noteq> 0" using assms(1) by auto
  then show ?thesis using binade_eq [OF assms] by (simp add: fl_def)
qed

text \<open>The doubles written \<open>0.1\<close> and \<open>1E-7\<close>.\<close>

lemma fl_tenth: "fl (1 / 10) = 3602879701896397 / 36028797018963968"
  by (subst fl_in_binade [where k = "- 4"]) (simp_all add: pow2_def nearest_even_def)

lemma fl_epsilon: "fl (1 / 10 ^ 7) = 944473296573929 / 9444732965739290427392"
  by (subst fl_in_binade [where k = "- 24"]) (simp_all add: pow2_def nearest_even_def)

text \<open>
  \<open>now - this.period_\<close> at the clock 1762156800 is rounded to a multiple of \<open>2^-22\<close>,
  and subtracting \<open>1E-7\<close>, less than half of \<open>2^-22\<close>, gives the same double.
\<close>

lemma fl_armed1:
  "fl (1762156800 - 3602879701896397 / 36028797018963968) = 3695510657223885 / 2097152"
  by (subst fl_in_binade [where k = 30]) (simp_all add: pow2_def nearest_even_def)

lemma fl_armed2:
  "fl (3695510657223885 / 2097152 - 944473296573929 / 9444732965739290427392) =
     3695510657223885 / 2097152"
  by (subst fl_in_binade [where k = 30]) (simp_all add: pow2_def nearest_even_def)

lemma fl_armed3: "fl (3695510657223885 / 2097152 - 0) = 3695510657223885 / 2097152"
proof -
  have "fl (3695510657223885 / 2097152) = 3695510657223885 / 2097152"
    by (subst fl_in_binade [where k = 30]) (simp_all add: pow2_def nearest_even_def)
  then show ?thesis by simp
qed

lemma fl_elapsed:
  "fl (1762156800 - 3695510657223885 / 2097152) = 209715 / 2097152"
  by (subst fl_in_binade [where k = "- 4"]) (simp_all add: pow2_def nearest_even_def)

lemma rounding_ieee: "rounding ieee = fl"
  by (simp add: ieee_def)

lemma arm_in_fired_sys:
  "period s = Num p \<Longrightarrow>
   fired_sys (arm_in w t0 s) =
     Num (rounding w (rounding w (t0 - p) - rounding w (1 / 10 ^ 7)))"
  by (simp add: arm_in_def)

lemma elapsed_in_nums:
  "fired_sys s = Num a \<Longrightarrow> delta s = Num b \<Longrightarrow>
   elapsed_in w now s = Num (rounding w (now - rounding w (a - b)))"
  by (simp add: elapsed_in_def)

text \<open>
  C5: the source at the failing input, in doubles. On a Timer that does not fire, with
  the callback 7 and the period \<open>0.1\<close>, \<open>startFiring()\<close> at the clock 1762156800
  (seconds since 1970) sets \<open>fired_sys_\<close> to 1762156799.9000001; the handler finds
  \<open>elapsed = 0.09999990463256836 < period_\<close>, does not call the callback and asks for
  the next tick.
\<close>

theorem startFiring_skips_callback:
  "period tenth = Num (3602879701896397 / 36028797018963968) \<and>
   callBack tenth = Some 7 \<and> \<not> firing tenth \<and>
   fired_sys (arm_in ieee 1762156800 tenth) = Num (3695510657223885 / 2097152) \<and>
   elapsed_in ieee 1762156800 (arm_in ieee 1762156800 tenth) = Num (209715 / 2097152) \<and>
   \<not> js_ge (elapsed_in ieee 1762156800 (arm_in ieee 1762156800 tenth)) (period tenth) \<and>
   calls (startFiring_in ieee 1762156800 1762156800 tenth) = [] \<and>
   firing (startFiring_in ieee 1762156800 1762156800 tenth) \<and>
   scheduled (startFiring_in ieee 1762156800 1762156800 tenth) = [(1, RequestAnimationFrame)]"
proof -
  have p: "period tenth = Num (3602879701896397 / 36028797018963968)"
    by (simp add: tenth_def fl_tenth new_Timer_def setCallBack_def stopFiring_def setPeriod_def)
  have s: "callBack tenth = Some 7 \<and> \<not> firing tenth \<and> legacy tenth = False \<and>
      scheduled tenth = [] \<and> fresh tenth = 1 \<and> calls tenth = []"
    by (simp add: tenth_def fl_tenth new_Timer_def setCallBack_def stopFiring_def setPeriod_def)
  have f: "fired_sys (arm_in ieee 1762156800 tenth) = Num (3695510657223885 / 2097152)"
    by (simp only: arm_in_fired_sys [OF p] rounding_ieee fl_epsilon fl_armed1 fl_armed2)
  have d: "delta (arm_in ieee 1762156800 tenth) = Num 0" by (simp add: arm_in_def)
  have e: "elapsed_in ieee 1762156800 (arm_in ieee 1762156800 tenth) = Num (209715 / 2097152)"
    by (simp only: elapsed_in_nums [OF f d] rounding_ieee fl_armed3 fl_elapsed)
  have a: "period (arm_in ieee 1762156800 tenth) = period tenth \<and>
      callBack (arm_in ieee 1762156800 tenth) = Some 7 \<and>
      legacy (arm_in ieee 1762156800 tenth) = False \<and>
      scheduled (arm_in ieee 1762156800 tenth) = [] \<and>
      fresh (arm_in ieee 1762156800 tenth) = 1 \<and>
      calls (arm_in ieee 1762156800 tenth) = [] \<and> firing (arm_in ieee 1762156800 tenth)"
    using s by (simp add: arm_in_def)
  have n: "\<not> js_ge (elapsed_in ieee 1762156800 (arm_in ieee 1762156800 tenth)) (period tenth)"
    by (simp add: e p)
  have r: "startFiring_in ieee 1762156800 1762156800 tenth =
      reschedule_in ieee (arm_in ieee 1762156800 tenth)"
    using s a n by (simp add: startFiring_in_def timerCallback_in_def)
  show ?thesis using p s f e n a
    by (simp add: r reschedule_in_def host_schedule_def)
qed

section \<open>Properties of DisplayLine\<close>

text \<open>
  C9: each style accessor of a DisplayLine returns the line's own property if it is
  defined, else what the same accessor of the prototype returns if there is a
  prototype, else the default: \<open>'gray'\<close> for \<open>getColor\<close>, 4.0 for \<open>getThickness\<close>,
  the empty array for \<open>getLineDash\<close> and 0 for \<open>getZIndex\<close>.
\<close>

theorem style_fallback:
  "getColor d =
     (case color d of Some c \<Rightarrow> c
      | None \<Rightarrow> (case proto d of Some p \<Rightarrow> getColor p | None \<Rightarrow> ''gray'')) \<and>
   getThickness d =
     (case thickness d of Some t \<Rightarrow> t
      | None \<Rightarrow> (case proto d of Some p \<Rightarrow> getThickness p | None \<Rightarrow> Num 4)) \<and>
   getLineDash d =
     (case lineDash d of Some ld \<Rightarrow> ld
      | None \<Rightarrow> (case proto d of Some p \<Rightarrow> getLineDash p | None \<Rightarrow> [])) \<and>
   getZIndex d =
     (case zIndex d of Some z \<Rightarrow> z
      | None \<Rightarrow> (case proto d of Some p \<Rightarrow> getZIndex p | None \<Rightarrow> Num 0))"
proof (cases d)
  case (DisplayLine l c t ld z p)
  then show ?thesis
    by (cases c; cases t; cases ld; cases z; cases p) simp_all
qed

theorem style_fallback_witness:
  "getColor (setColor (Some ''red'') (new_DisplayLine 0 (Some 1) (Some blue_proto))) = ''red'' \<and>
   getColor (new_DisplayLine 0 (Some 1) (Some blue_proto)) = ''blue'' \<and>
   getColor (new_DisplayLine 0 (Some (1::nat)) None) = ''gray'' \<and>
   getThickness (new_DisplayLine 0 (Some 1) (Some blue_proto)) = Num 1 \<and>
   getThickness (new_DisplayLine 0 (Some (1::nat)) None) = Num 4 \<and>
   getLineDash (new_DisplayLine 0 (Some 1) (Some blue_proto)) = [] \<and>
   getZIndex (new_DisplayLine 0 (Some 1) (Some blue_proto)) = Num 0"
  using style_fallback [of "setColor (Some ''red'') (new_DisplayLine 0 (Some 1) (Some blue_proto))"]
    style_fallback [of "new_DisplayLine 0 (Some 1) (Some blue_proto)"]
    style_fallback [of "new_DisplayLine 0 (Some (1::nat)) None"]
    style_fallback [of blue_proto]
  by (simp add: blue_proto_def new_DisplayLine_def)

section \<open>Properties of PathObserver\<close>

lemmas observer_defs = observer0_def added_def removed_def new_PathObserver_def observe_def
  addPath_def removePath_def list_collaborators_def new_DisplayPath_def displays_of_def
  OBJECT_ADDED_def OBJECT_REMOVED_def Let_def

lemma list_collaborators_ok: "collaborators_ok list_collaborators"
  unfolding collaborators_ok_def list_collaborators_def
  by (auto simp: find_None_iff)

lemma length_displays_of:
  "length (displays_of np s) =
     size (filter_mset (\<lambda>d. np \<in> set (dp_paths d)) (mset (displayList s)))"
  by (simp add: displays_of_def flip: mset_filter)

lemma addPath_present:
  assumes "collaborators_ok env" and "displays_of np s \<noteq> []"
  shows "addPath env np s = s"
proof -
  from assms(2) obtain d where "d \<in> set (displayList s)" "np \<in> set (dp_paths d)"
    by (auto simp: displays_of_def filter_empty_conv)
  then have "dl_find env (displayList s) np \<noteq> None"
    using assms(1) unfolding collaborators_ok_def by blast
  then show ?thesis by (simp add: addPath_def)
qed

lemma addPath_displayList:
  "displayList (addPath env np s) =
     (if dl_find env (displayList s) np \<noteq> None then displayList s
      else dl_add env (displayList s)
             (dp_addPath np (dp_setScreenRect (screenRect s)
                (new_DisplayPath (next_id s) (protoDisplayPath s)))))"
  by (simp add: addPath_def Let_def)

lemma new_paths:
  "dp_paths (dp_addPath np (dp_setScreenRect r (new_DisplayPath i pr))) = [np]"
  by (simp add: new_DisplayPath_def)

lemma addPath_one:
  assumes ok: "collaborators_ok env" and one: "\<forall>q. length (displays_of q s) \<le> 1"
  shows "length (displays_of q (addPath env np s)) \<le> 1"
proof (cases "dl_find env (displayList s) np \<noteq> None")
  case True
  then show ?thesis using one by (simp add: addPath_def)
next
  case False
  let ?d = "dp_addPath np (dp_setScreenRect (screenRect s)
              (new_DisplayPath (next_id s) (protoDisplayPath s)))"
  have none: "\<forall>d \<in> set (displayList s). np \<notin> set (dp_paths d)"
    using ok False unfolding collaborators_ok_def by blast
  have m: "mset (displayList (addPath env np s)) = add_mset ?d (mset (displayList s))"
    using ok False unfolding collaborators_ok_def by (simp add: addPath_displayList)
  show ?thesis
  proof (cases "q = np")
    case True
    have "filter_mset (\<lambda>d. np \<in> set (dp_paths d)) (mset (displayList s)) = {#}"
      using none by simp
    then show ?thesis using True m by (simp add: length_displays_of new_paths)
  next
    case False
    then show ?thesis using m one [rule_format, of q]
      by (simp add: length_displays_of new_paths)
  qed
qed

lemma filter_length_mono:
  "(\<And>x. Q x \<Longrightarrow> P x) \<Longrightarrow> length (filter Q xs) \<le> length (filter P xs)"
  by (induction xs) auto

lemma dp_removePath_paths:
  assumes "q \<in> set (dp_paths (dp_removePath np d))"
  shows "q \<in> set (dp_paths d)"
proof (cases d)
  case (DisplayPath i ps sr z pr)
  then show ?thesis using assms set_remove1_subset [of np ps] by auto
qed

lemma removePath_one:
  assumes ok: "collaborators_ok env" and one: "\<forall>q. length (displays_of q s) \<le> 1"
  shows "length (displays_of q (removePath env np s)) \<le> 1"
proof (cases "List.find (\<lambda>element. simObj element = np) (memObjs s)")
  case None
  then show ?thesis using one by (simp add: removePath_def)
next
  case (Some memObj)
  let ?P = "\<lambda>d. q \<in> set (dp_paths d)"
  let ?f = "\<lambda>d. if dp_id d = dp_id (dispPath memObj) then dp_removePath np d else d"
  let ?dl = "dl_remove env (displayList s) (dispPath memObj)"
  have dl: "displayList (removePath env np s) = map ?f ?dl"
    using Some by (simp add: removePath_def)
  have "length (filter ?P (map ?f ?dl)) = length (filter (?P \<circ> ?f) ?dl)"
    by (simp add: filter_map)
  also have "\<dots> \<le> length (filter ?P ?dl)"
    by (rule filter_length_mono) (auto dest: dp_removePath_paths split: if_splits)
  also have "\<dots> = size (filter_mset ?P (mset ?dl))"
    by (simp flip: mset_filter)
  also have "\<dots> \<le> size (filter_mset ?P (mset (displayList s)))"
    using ok unfolding collaborators_ok_def
    by (intro size_mset_mono multiset_filter_mono) simp
  also have "\<dots> = length (displays_of q s)"
    by (simp add: length_displays_of)
  finally show ?thesis using one [rule_format, of q] dl by (simp add: displays_of_def)
qed

lemma observe_one:
  assumes ok: "collaborators_ok env" and one: "\<forall>q. length (displays_of q s) \<le> 1"
  shows "\<forall>q. length (displays_of q (observe env ev s)) \<le> 1"
  using addPath_one [OF ok one] removePath_one [OF ok one] one
  by (simp add: observe_def split: SimObject.splits)

lemma observe_all_one:
  assumes ok: "collaborators_ok env"
  shows "\<forall>q. length (displays_of q s) \<le> 1 \<Longrightarrow>
         \<forall>q. length (displays_of q (observe_all env evs s)) \<le> 1"
proof (induction evs arbitrary: s)
  case Nil
  then show ?case by simp
next
  case (Cons ev evs)
  have "\<forall>q. length (displays_of q (observe env ev s)) \<le> 1"
    using ok Cons.prems by (rule observe_one)
  then show ?case using Cons.IH by simp
qed

text \<open>
  C10: with a DisplayList that meets \<open>collaborators_ok\<close>, \<open>addPath(np)\<close> returns at
  once, leaving the whole state as it is (DisplayList, observers, rectangles set,
  \<open>memObjs_\<close>), when \<open>find\<close> returns a display for \<open>np\<close>, so whenever the DisplayList
  holds a DisplayPath that shows \<open>np\<close>; an \<open>OBJECT_ADDED\<close> event of the SimList for \<open>np\<close>
  then changes nothing either. Hence, if no path is shown by two DisplayPaths of the
  DisplayList, none is after any sequence of events that the PathObserver observes.
\<close>

theorem no_duplicate_displays:
  assumes ok: "collaborators_ok env"
  shows "(dl_find env (displayList s) np \<noteq> None \<longrightarrow> addPath env np s = s) \<and>
         (displays_of np s \<noteq> [] \<longrightarrow>
            addPath env np s = s \<and>
            observe env \<lparr>getSubject = simList s, getName = OBJECT_ADDED,
                         getValue = NumericalPath np\<rparr> s = s) \<and>
         ((\<forall>q. length (displays_of q s) \<le> 1) \<longrightarrow>
            (\<forall>q. length (displays_of q (observe_all env evs s)) \<le> 1))"
proof -
  have a: "dl_find env (displayList s) np \<noteq> None \<longrightarrow> addPath env np s = s"
    by (simp add: addPath_def)
  have b: "displays_of np s \<noteq> [] \<longrightarrow> addPath env np s = s"
    using addPath_present [OF ok] by blast
  then have c: "displays_of np s \<noteq> [] \<longrightarrow>
      observe env \<lparr>getSubject = simList s, getName = OBJECT_ADDED,
                   getValue = NumericalPath np\<rparr> s = s"
    by (simp add: observe_def)
  show ?thesis using a b c observe_all_one [OF ok, of s evs] by blast
qed

theorem no_duplicate_displays_witness:
  "collaborators_ok list_collaborators \<and>
   map dp_paths (displayList (observe list_collaborators (added 1) observer0)) = [[1]] \<and>
   addPath list_collaborators 1 (observe list_collaborators (added 1) observer0) =
     observe list_collaborators (added 1) observer0 \<and>
   observe list_collaborators (added 1) (observe list_collaborators (added 1) observer0) =
     observe list_collaborators (added 1) observer0 \<and>
   map dp_paths (displayList
     (observe_all list_collaborators [added 1, added 2, added 1, removed 2, added 1]
        observer0)) = [[1]] \<and>
   length (displays_of 1
     (observe_all list_collaborators [added 1, added 2, added 1, removed 2, added 1]
        observer0)) \<le> 1"
proof -
  let ?s = "observe list_collaborators (added 1) observer0"
  have p: "displays_of 1 ?s \<noteq> []" by (simp add: observer_defs)
  have sl: "simList ?s = 0" by (simp add: observer_defs)
  have one: "\<forall>q. length (displays_of q observer0) \<le> 1" by (simp add: observer_defs)
  have v: "map dp_paths (displayList ?s) = [[1]]" by (simp add: observer_defs)
  have w: "map dp_paths (displayList
     (observe_all list_collaborators [added 1, added 2, added 1, removed 2, added 1]
        observer0)) = [[1]]"
    by (simp add: observer_defs)
  show ?thesis
    using no_duplicate_displays [OF list_collaborators_ok, of ?s 1 "[]"]
      no_duplicate_displays [OF list_collaborators_ok, of observer0 1
        "[added 1, added 2, added 1, removed 2, added 1]"]
      p sl one v w list_collaborators_ok
    by (simp add: added_def)
qed

end
